theory Spec2Isabelle
  imports Complex_Main "HOL-Library.Product_Lexorder"
begin

section \<open>Values, errors and tables\<close>

text \<open>
  A float cell of a DataFrame is a number or NaN (\<open>None\<close>). Python floats are
  idealised as reals: rounding is not modelled.
\<close>

type_synonym cell = "real option"

datatype error = ValueError | KeyError string | TypeError

text \<open>Sequencing of steps that may raise: an error ends the computation.\<close>

fun and_then :: "error + 'a \<Rightarrow> ('a \<Rightarrow> error + 'b) \<Rightarrow> error + 'b" where
  "and_then (Inl e) f = Inl e"
| "and_then (Inr x) f = f x"

text \<open>One row of a long-form distance table (columns id_start, id_end, distance).\<close>

record loc_pair =
  id_start :: int
  id_end :: int
  distance :: cell

text \<open>
  A wide DataFrame: row labels, column labels and the 2-D array of its cells
  (\<open>.values\<close>, a list of rows).
\<close>

record matrix =
  index :: "int list"
  columns :: "int list"
  vals :: "cell list list"

text \<open>
  Label-based read of a cell. A label the frame does not have reads as NaN, as after
  the reindexing that aligns two frames.
\<close>

definition cell_at :: "matrix \<Rightarrow> int \<Rightarrow> int \<Rightarrow> cell" where
  "cell_at m i j =
     (case map_of (zip (index m) (vals m)) i of
        None \<Rightarrow> None
      | Some row \<Rightarrow> (case map_of (zip (columns m) row) j of None \<Rightarrow> None | Some c \<Rightarrow> c))"

section \<open>python_task_2: distance matrix\<close>

text \<open>
  \<open>df.pivot(index='id_start', columns='id_end', values='distance')\<close>: raises
  ValueError when an (id_start, id_end) pair occurs twice; otherwise the labels are the
  sorted distinct values of the two columns and a pair without a row is NaN.
\<close>

definition pivot :: "loc_pair list \<Rightarrow> error + matrix" where
  "pivot df =
     (if \<not> distinct (map (\<lambda>r. (id_start r, id_end r)) df) then Inl ValueError
      else
        let idx = sort (remdups (map id_start df));
            cols = sort (remdups (map id_end df))
        in Inr \<lparr>index = idx, columns = cols,
                vals = map (\<lambda>i. map (\<lambda>j.
                         (case find (\<lambda>r. id_start r = i \<and> id_end r = j) df of
                            None \<Rightarrow> None
                          | Some r \<Rightarrow> distance r)) cols) idx\<rparr>)"

definition fillna :: "matrix \<Rightarrow> real \<Rightarrow> matrix" where
  "fillna m v = m\<lparr>vals := map (map (\<lambda>c. case c of None \<Rightarrow> Some v | Some x \<Rightarrow> Some x)) (vals m)\<rparr>"

text \<open>\<open>df.T\<close>: labels swapped, cell (j, i) of the transpose is cell (i, j).\<close>

definition T :: "matrix \<Rightarrow> matrix" where
  "T m = \<lparr>index = columns m, columns = index m,
          vals = map (\<lambda>j. map (\<lambda>i. cell_at m i j) (index m)) (columns m)\<rparr>"

text \<open>
  Outer join of two label lists when frames are aligned: equal indexes are kept as they
  are, otherwise the result is the sorted union.
\<close>

definition outer_join :: "int list \<Rightarrow> int list \<Rightarrow> int list" where
  "outer_join xs ys = (if xs = ys then xs else sort (remdups (xs @ ys)))"

text \<open>
  pandas \<open>fill_binop\<close>: the fill value replaces a missing operand only where the other
  operand is present; where both are missing the result stays missing.
\<close>

fun fill_binop :: "cell \<Rightarrow> cell \<Rightarrow> real \<Rightarrow> cell" where
  "fill_binop None None fill_value = None"
| "fill_binop (Some x) None fill_value = Some (x + fill_value)"
| "fill_binop None (Some y) fill_value = Some (fill_value + y)"
| "fill_binop (Some x) (Some y) fill_value = Some (x + y)"

text \<open>\<open>a.add(b, fill_value=...)\<close>: both frames are reindexed to the joined labels, then added.\<close>

definition add :: "matrix \<Rightarrow> matrix \<Rightarrow> real \<Rightarrow> matrix" where
  "add a b fill_value =
     (let idx = outer_join (index a) (index b);
          cols = outer_join (columns a) (columns b)
      in \<lparr>index = idx, columns = cols,
          vals = map (\<lambda>i. map (\<lambda>j. fill_binop (cell_at a i j) (cell_at b i j) fill_value) cols) idx\<rparr>)"

text \<open>
  \<open>np.fill_diagonal(a, v)\<close> writes position (k, k) of the 2-D array for every k inside
  both dimensions. \<open>.values\<close> is taken as a writable view of the frame (pandas without
  copy-on-write), so the write reaches the frame.
\<close>

definition fill_diagonal :: "cell list list \<Rightarrow> real \<Rightarrow> cell list list" where
  "fill_diagonal a v = map (\<lambda>(k, row). row[k := Some v]) (enumerate 0 a)"

definition calculate_distance_matrix :: "loc_pair list \<Rightarrow> error + matrix" where
  "calculate_distance_matrix df =
     and_then (pivot df) (\<lambda>p.
       let distance_matrix = fillna p 0;
           distance_matrix = add distance_matrix (T distance_matrix) 0
       in Inr (distance_matrix\<lparr>vals := fill_diagonal (vals distance_matrix) 0\<rparr>))"

text \<open>
  \<open>df.stack().reset_index()\<close>: one row per cell that is not NaN (\<open>stack\<close> drops NaN by
  default), row by row; then the three columns are named id_start, id_end, distance.
\<close>

definition row_records :: "int \<Rightarrow> (int \<times> cell) list \<Rightarrow> loc_pair list" where
  "row_records i cs =
     concat (map (\<lambda>(j, c). case c of None \<Rightarrow> []
                             | Some v \<Rightarrow> [\<lparr>id_start = i, id_end = j, distance = Some v\<rparr>]) cs)"

definition unroll_distance_matrix :: "matrix \<Rightarrow> loc_pair list" where
  "unroll_distance_matrix df =
     concat (map (\<lambda>(i, row). row_records i (zip (columns df) row)) (zip (index df) (vals df)))"

section \<open>python_task_2: threshold filter\<close>

text \<open>\<open>Series.mean()\<close>: NaN values are skipped; the mean of nothing is NaN.\<close>

definition mean :: "cell list \<Rightarrow> cell" where
  "mean xs =
     (let ys = concat (map (\<lambda>c. case c of None \<Rightarrow> [] | Some y \<Rightarrow> [y]) xs)
      in if ys = [] then None else Some (sum_list ys / real (length ys)))"

text \<open>Float arithmetic and comparison: NaN propagates, and every comparison with NaN is false.\<close>

fun cell_mul :: "cell \<Rightarrow> cell \<Rightarrow> cell" where
  "cell_mul (Some x) (Some y) = Some (x * y)"
| "cell_mul _ _ = None"

fun cell_add :: "cell \<Rightarrow> cell \<Rightarrow> cell" where
  "cell_add (Some x) (Some y) = Some (x + y)"
| "cell_add _ _ = None"

fun cell_sub :: "cell \<Rightarrow> cell \<Rightarrow> cell" where
  "cell_sub (Some x) (Some y) = Some (x - y)"
| "cell_sub _ _ = None"

fun cell_le :: "cell \<Rightarrow> cell \<Rightarrow> bool" where
  "cell_le (Some x) (Some y) = (x \<le> y)"
| "cell_le _ _ = False"

text \<open>
  The function has no raise of its own and the typed table always has its columns, so
  every call returns a result (\<open>Inr\<close>): the selected (id_start, mean distance) rows.
\<close>

definition find_ids_within_ten_percentage_threshold ::
  "loc_pair list \<Rightarrow> int \<Rightarrow> error + (int \<times> cell) list" where
  "find_ids_within_ten_percentage_threshold df reference_id =
     (let avg_distance_reference = mean (map distance (filter (\<lambda>r. id_start r = reference_id) df));
          threshold = cell_mul (Some 0.1) avg_distance_reference;
          means = map (\<lambda>k. (k, mean (map distance (filter (\<lambda>r. id_start r = k) df))))
                      (sort (remdups (map id_start df)));
          result_df = filter (\<lambda>(k, x). cell_le (cell_sub avg_distance_reference threshold) x
                                      \<and> cell_le x (cell_add avg_distance_reference threshold)) means
      in Inr (sort_key fst result_df))"

section \<open>python_task_2: toll rates\<close>

text \<open>
  A DataFrame with named columns of different dtypes. A datetime64 value is a count of
  nanoseconds since 1970-01-01 (a Thursday) or NaT (\<open>None\<close>); a \<open>datetime.time\<close> is a
  count of microseconds since midnight. An object column holds None, NaT, time objects
  or timestamps.
\<close>

datatype obj = ONone | ONaT | OTime nat | OStamp int

datatype column =
    Float64 "cell list"
  | Int64 "int list"
  | Datetime64 "int option list"
  | Object "obj list"

record frame =
  nrows :: nat
  cols :: "(string \<times> column) list"



text \<open>The DataFrame that holds a long-form distance table.\<close>

definition DataFrame :: "loc_pair list \<Rightarrow> frame" where
  "DataFrame recs =
     \<lparr>nrows = length recs,
      cols = [(''id_start'', Int64 (map id_start recs)),
              (''id_end'', Int64 (map id_end recs)),
              (''distance'', Float64 (map distance recs))]\<rparr>"

text \<open>\<open>df[name]\<close> raises KeyError for a column the frame does not have.\<close>

definition getitem :: "frame \<Rightarrow> string \<Rightarrow> error + column" where
  "getitem df name = (case map_of (cols df) name of None \<Rightarrow> Inl (KeyError name) | Some c \<Rightarrow> Inr c)"

text \<open>\<open>df[name] = c\<close> replaces the column in place, or appends a new last column.\<close>

definition setitem :: "frame \<Rightarrow> string \<Rightarrow> column \<Rightarrow> frame" where
  "setitem df name c =
     (if map_of (cols df) name = None then df\<lparr>cols := cols df @ [(name, c)]\<rparr>
      else df\<lparr>cols := map (\<lambda>(n, old). if n = name then (n, c) else (n, old)) (cols df)\<rparr>)"


text \<open>
  The operand of an arithmetic operation. Integers are read as floats; a datetime64
  column raises TypeError; on an object column pandas computes on the entries that are
  not null only, so None and NaT give NaN and a time or a timestamp raises TypeError.
\<close>

fun numeric :: "column \<Rightarrow> error + cell list" where
  "numeric (Float64 xs) = Inr xs"
| "numeric (Int64 ns) = Inr (map (\<lambda>n. Some (real_of_int n)) ns)"
| "numeric (Datetime64 ds) = Inl TypeError"
| "numeric (Object os) =
     (if list_all (\<lambda>x. x = ONone \<or> x = ONaT) os then Inr (map (\<lambda>x. None) os) else Inl TypeError)"

text \<open>\<open>series * rate\<close> and \<open>series * series\<close> (both of one frame, so index-aligned).\<close>

definition mul_scalar :: "column \<Rightarrow> real \<Rightarrow> error + column" where
  "mul_scalar c rate =
     and_then (numeric c) (\<lambda>xs. Inr (Float64 (map (\<lambda>x. cell_mul x (Some rate)) xs)))"


text \<open>A \<open>for\<close> loop whose body may raise: the first error ends the loop.\<close>

fun for_each :: "('a \<Rightarrow> 's \<Rightarrow> error + 's) \<Rightarrow> 'a list \<Rightarrow> 's \<Rightarrow> error + 's" where
  "for_each body [] s = Inr s"
| "for_each body (x # xs) s = and_then (body x s) (for_each body xs)"

text \<open>The dict of line 69, in insertion order.\<close>

definition toll_rates :: "(string \<times> real) list" where
  "toll_rates = [(''moto'', 0.8), (''car'', 1.2), (''rv'', 1.5), (''bus'', 2.2), (''truck'', 3.6)]"

definition calculate_toll_rate :: "frame \<Rightarrow> error + frame" where
  "calculate_toll_rate df =
     for_each (\<lambda>(vehicle_type, rate) df.
        and_then (getitem df ''distance'') (\<lambda>d.
        and_then (mul_scalar d rate) (\<lambda>c.
          Inr (setitem df vehicle_type c))))
       toll_rates df"

section \<open>python_task_2: time-based toll rates\<close>

text \<open>\<open>pd.to_datetime('hh:mm:ss').time()\<close>, in microseconds since midnight.\<close>

definition time_of :: "nat \<Rightarrow> nat \<Rightarrow> nat \<Rightarrow> nat" where
  "time_of h m s = ((h * 60 + m) * 60 + s) * 1000000"

definition ns_per_day :: int where
  "ns_per_day = 86400000000000"



text \<open>
  The weekday of a timestamp (Monday is 0; day 0 of the epoch is a Thursday) and its
  time of day as a \<open>datetime.time\<close>, which has microsecond resolution.
\<close>

definition dayofweek :: "int \<Rightarrow> int" where
  "dayofweek s = (s div ns_per_day + 3) mod 7"

definition time_of_day :: "int \<Rightarrow> nat" where
  "time_of_day s = nat ((s mod ns_per_day) div 1000)"










text \<open>Line 107 defines the weekend range; nothing reads it.\<close>

definition weekend_time_ranges :: "(nat \<times> nat) list" where
  "weekend_time_ranges = [(time_of 0 0 0, time_of 23 59 59)]"





section \<open>python_task_1: time_check\<close>

text \<open>
  One observation, its timestamp already a datetime64 value (nanoseconds since
  1970-01-01): parsing of timestamp strings is not modelled. The column id is the field
  \<open>id1\<close>, since \<open>id\<close> is the identity function of HOL.
\<close>

record observation =
  id1 :: int
  id_2 :: int
  timestamp :: int

text \<open>
  The Python values the aggregation of time_of_day computes with, and Python's \<open>-\<close> on
  them: timestamps and timedeltas subtract, a \<open>datetime.time\<close> supports no arithmetic
  (\<open>TypeError: unsupported operand type(s) for -: 'datetime.time' and 'datetime.time'\<close>).
  Timedeltas are in nanoseconds.
\<close>

datatype pyobj = Time nat | Timedelta int | Timestamp int

fun py_sub :: "pyobj \<Rightarrow> pyobj \<Rightarrow> error + pyobj" where
  "py_sub (Timestamp a) (Timestamp b) = Inr (Timedelta (a - b))"
| "py_sub (Timestamp a) (Timedelta d) = Inr (Timestamp (a - d))"
| "py_sub (Timedelta a) (Timedelta b) = Inr (Timedelta (a - b))"
| "py_sub _ _ = Inl TypeError"

definition pd_Timedelta :: "int \<Rightarrow> int \<Rightarrow> int \<Rightarrow> pyobj" where
  "pd_Timedelta hours minutes seconds = Timedelta (((hours * 60 + minutes) * 60 + seconds) * 1000000000)"

text \<open>The two lambdas of the \<open>agg\<close> dict (lines 103 and 105), on the values of one group.\<close>

definition day_of_week_agg :: "int list \<Rightarrow> bool" where
  "day_of_week_agg x = (length (remdups x) = 7)"

definition time_of_day_agg :: "nat list \<Rightarrow> error + bool" where
  "time_of_day_agg x =
     and_then (py_sub (Time (Max (set x))) (Time (Min (set x))))
       (\<lambda>d. Inr (d = pd_Timedelta 23 59 59))"

text \<open>\<open>groupby(['id', 'id_2'])\<close>: the groups in sorted key order, rows in input order.\<close>

definition groupby :: "observation list \<Rightarrow> ((int \<times> int) \<times> observation list) list" where
  "groupby df =
     map (\<lambda>k. (k, filter (\<lambda>r. (id1 r, id_2 r) = k) df))
         (sort (remdups (map (\<lambda>r. (id1 r, id_2 r)) df)))"

text \<open>Applying a function that may raise to every group: the first error ends the call.\<close>

fun agg :: "('a \<Rightarrow> error + 'b) \<Rightarrow> 'a list \<Rightarrow> error + 'b list" where
  "agg f [] = Inr []"
| "agg f (g # gs) = and_then (f g) (\<lambda>y. and_then (agg f gs) (\<lambda>ys. Inr (y # ys)))"

definition time_check :: "observation list \<Rightarrow> error + ((int \<times> int) \<times> bool) list" where
  "time_check df =
     (let groups = groupby df
      in and_then (agg (\<lambda>(k, g). Inr (day_of_week_agg (map (\<lambda>r. dayofweek (timestamp r)) g))) groups)
           (\<lambda>days.
         and_then (agg (\<lambda>(k, g). time_of_day_agg (map (\<lambda>r. time_of_day (timestamp r)) g)) groups)
           (\<lambda>times.
           Inr (map (\<lambda>((k, g), (d, t)). (k, d \<and> t)) (zip groups (zip days times))))))"

section \<open>Properties of the distance matrix\<close>








lemma row_records_Nil [simp]: "row_records i [] = []"
  by (simp add: row_records_def)

lemma row_records_Cons [simp]:
  "row_records i ((j, c) # cs) =
     (case c of None \<Rightarrow> [] | Some v \<Rightarrow> [\<lparr>id_start = i, id_end = j, distance = Some v\<rparr>]) @ row_records i cs"
  by (simp add: row_records_def)












section \<open>Properties of frames and of the discount\<close>

lemma map_of_replace:
  "map_of (map (\<lambda>(n, old). if n = name then (n, c) else (n, old)) xs) m =
     (if m = name then (if map_of xs name = None then None else Some c) else map_of xs m)"
  by (induction xs) auto


lemma getitem_setitem:
  "getitem (setitem df name c) m = (if m = name then Inr c else getitem df m)"
  by (auto simp: getitem_def setitem_def map_of_replace split: option.splits)

lemma nrows_setitem [simp]: "nrows (setitem df name c) = nrows df"
  by (simp add: setitem_def)

lemma names_setitem:
  "fst ` set (cols (setitem df name c)) = insert name (fst ` set (cols df))"
proof (cases "map_of (cols df) name")
  case None
  then show ?thesis by (simp add: setitem_def)
next
  case (Some a)
  then have "name \<in> fst ` set (cols df)"
    by (meson domI domIff map_of_eq_None_iff)
  moreover have "fst ` set (map (\<lambda>(n, old). if n = name then (n, c) else (n, old)) (cols df))
      = fst ` set (cols df)"
    by (force simp: image_iff split: if_splits)
  ultimately show ?thesis using Some by (auto simp: setitem_def)
qed









lemma cell_mul_scalar: "(\<lambda>x. cell_mul x (Some r)) = map_option (\<lambda>x. x * r)"
  by (rule ext) (case_tac x; simp)




section \<open>Properties of time_check\<close>

lemma agg_total: "agg (\<lambda>x. Inr (f x)) xs = Inr (map f xs)"
  by (induction xs) simp_all

lemma time_of_day_agg_raises: "time_of_day_agg x = Inl TypeError"
  by (simp add: time_of_day_agg_def)

text \<open>Every input with at least one observation makes time_check raise TypeError.\<close>

lemma time_check_raises:
  assumes "df \<noteq> []"
  shows "time_check df = Inl TypeError"
proof -
  from assms have "map (\<lambda>r. (id1 r, id_2 r)) df \<noteq> []"
    by simp
  then have "set (sort (remdups (map (\<lambda>r. (id1 r, id_2 r)) df))) \<noteq> {}"
    by simp
  then have "groupby df \<noteq> []"
    unfolding groupby_def by (metis (no_types) map_is_Nil_conv set_empty)
  then obtain g gs where g: "groupby df = g # gs"
    by (cases "groupby df") auto
  have d: "agg (\<lambda>(k, g). Inr (day_of_week_agg (map (\<lambda>r. dayofweek (timestamp r)) g))) (groupby df)
      = Inr (map (\<lambda>(k, g). day_of_week_agg (map (\<lambda>r. dayofweek (timestamp r)) g)) (groupby df))"
    using agg_total [of "\<lambda>(k, g). day_of_week_agg (map (\<lambda>r. dayofweek (timestamp r)) g)" "groupby df"]
    by (simp add: case_prod_unfold)
  have t: "agg (\<lambda>(k, g). time_of_day_agg (map (\<lambda>r. time_of_day (timestamp r)) g)) (groupby df)
      = Inl TypeError"
    unfolding g by (cases g) (simp add: time_of_day_agg_raises)
  show ?thesis
    unfolding time_check_def Let_def d t by simp
qed

section \<open>Claims\<close>

text \<open>
  C1 (amended). For the two rows (1, 2, 10) and (2, 1, 10), calculate_distance_matrix
  returns [[0, 20], [20, 0]] over the identifiers [1, 2]: line 18 adds the pivoted matrix
  to its transpose, so a pair given in both directions is summed. Unrolling the returned
  matrix without the diagonal gives [(1, 2, 20), (2, 1, 20)]; unrolling the matrix
  [[0, 10], [10, 0]] without the diagonal gives [(1, 2, 10), (2, 1, 10)]; and
  calculate_toll_rate on the row (1, 2, 10) gives car = 12 and truck = 36.
\<close>

theorem end_to_end_example:
  "calculate_distance_matrix
     [\<lparr>id_start = 1, id_end = 2, distance = Some 10\<rparr>,
      \<lparr>id_start = 2, id_end = 1, distance = Some 10\<rparr>]
   = Inr \<lparr>index = [1, 2], columns = [1, 2], vals = [[Some 0, Some 20], [Some 20, Some 0]]\<rparr>
   \<and> filter (\<lambda>r. id_start r \<noteq> id_end r)
       (unroll_distance_matrix
          \<lparr>index = [1, 2], columns = [1, 2], vals = [[Some 0, Some 20], [Some 20, Some 0]]\<rparr>)
     = [\<lparr>id_start = 1, id_end = 2, distance = Some 20\<rparr>,
        \<lparr>id_start = 2, id_end = 1, distance = Some 20\<rparr>]
   \<and> filter (\<lambda>r. id_start r \<noteq> id_end r)
       (unroll_distance_matrix
          \<lparr>index = [1, 2], columns = [1, 2], vals = [[Some 0, Some 10], [Some 10, Some 0]]\<rparr>)
     = [\<lparr>id_start = 1, id_end = 2, distance = Some 10\<rparr>,
        \<lparr>id_start = 2, id_end = 1, distance = Some 10\<rparr>]
   \<and> and_then (calculate_toll_rate (DataFrame [\<lparr>id_start = 1, id_end = 2, distance = Some 10\<rparr>]))
        (\<lambda>df. getitem df ''car'') = Inr (Float64 [Some 12])
   \<and> and_then (calculate_toll_rate (DataFrame [\<lparr>id_start = 1, id_end = 2, distance = Some 10\<rparr>]))
        (\<lambda>df. getitem df ''truck'') = Inr (Float64 [Some 36])"
proof -
  have m: "calculate_distance_matrix
     [\<lparr>id_start = 1, id_end = 2, distance = Some 10\<rparr>,
      \<lparr>id_start = 2, id_end = 1, distance = Some 10\<rparr>]
   = Inr \<lparr>index = [1, 2], columns = [1, 2], vals = [[Some 0, Some 20], [Some 20, Some 0]]\<rparr>"
    by (simp add: calculate_distance_matrix_def pivot_def fillna_def add_def T_def outer_join_def
        cell_at_def fill_diagonal_def enumerate_eq_zip Let_def)
  have u: "filter (\<lambda>r. id_start r \<noteq> id_end r)
       (unroll_distance_matrix
          \<lparr>index = [1, 2], columns = [1, 2], vals = [[Some 0, Some v], [Some v, Some 0]]\<rparr>)
     = [\<lparr>id_start = 1, id_end = 2, distance = Some v\<rparr>,
        \<lparr>id_start = 2, id_end = 1, distance = Some v\<rparr>]" for v
    by (simp add: unroll_distance_matrix_def)
  have t: "calculate_toll_rate (DataFrame [\<lparr>id_start = 1, id_end = 2, distance = Some 10\<rparr>]) =
    Inr \<lparr>nrows = 1,
        cols = [(''id_start'', Int64 [1]), (''id_end'', Int64 [2]),
                (''distance'', Float64 [Some 10]), (''moto'', Float64 [Some 8]),
                (''car'', Float64 [Some 12]), (''rv'', Float64 [Some 15]),
                (''bus'', Float64 [Some 22]), (''truck'', Float64 [Some 36])]\<rparr>"
    by (simp add: calculate_toll_rate_def toll_rates_def DataFrame_def getitem_def setitem_def
        mul_scalar_def)
  show ?thesis
    unfolding m u t by (simp add: getitem_def)
qed

text \<open>
  C1 as stated fails: the matrix returned for the two rows is not [[0, 10], [10, 0]].
\<close>

theorem end_to_end_example_counterexample:
  "calculate_distance_matrix
     [\<lparr>id_start = 1, id_end = 2, distance = Some 10\<rparr>,
      \<lparr>id_start = 2, id_end = 1, distance = Some 10\<rparr>]
   \<noteq> Inr \<lparr>index = [1, 2], columns = [1, 2], vals = [[Some 0, Some 10], [Some 10, Some 0]]\<rparr>"
  by (simp add: calculate_distance_matrix_def pivot_def fillna_def add_def T_def outer_join_def
      cell_at_def fill_diagonal_def enumerate_eq_zip Let_def)









text \<open>
  C5. \<open>x.max() - x.min()\<close> subtracts two \<open>datetime.time\<close> objects, which Python does not
  support: the aggregation raises TypeError for the first group, so time_check returns no
  result. The group below has observations on all seven weekdays (Monday 1970-01-05 to
  Sunday 1970-01-11), the first at 00:00:00 and the last at 23:59:59.
\<close>

theorem time_check_full_week_raises:
  "time_check
     [\<lparr>id1 = 1, id_2 = 2, timestamp = 4 * ns_per_day\<rparr>,
      \<lparr>id1 = 1, id_2 = 2, timestamp = 5 * ns_per_day\<rparr>,
      \<lparr>id1 = 1, id_2 = 2, timestamp = 6 * ns_per_day\<rparr>,
      \<lparr>id1 = 1, id_2 = 2, timestamp = 7 * ns_per_day\<rparr>,
      \<lparr>id1 = 1, id_2 = 2, timestamp = 8 * ns_per_day\<rparr>,
      \<lparr>id1 = 1, id_2 = 2, timestamp = 9 * ns_per_day\<rparr>,
      \<lparr>id1 = 1, id_2 = 2, timestamp = 10 * ns_per_day + 86399000000000\<rparr>]
   = Inl TypeError"
  by (simp add: time_check_def groupby_def time_of_day_agg_def)

text \<open>
  C6 (amended). When no record has the reference identifier as id_start, the call does
  not fail: the reference average is NaN (the mean of no values), every comparison with
  NaN is false, and the result is the empty table.
\<close>

theorem missing_reference_gives_empty_result:
  assumes "reference_id \<notin> set (map id_start df)"
  shows "find_ids_within_ten_percentage_threshold df reference_id = Inr []"
proof -
  from assms have "filter (\<lambda>r. id_start r = reference_id) df = []"
    by (auto simp: filter_empty_conv)
  then show ?thesis
    by (simp add: find_ids_within_ten_percentage_threshold_def mean_def)
qed

theorem missing_reference_gives_empty_result_witness:
  "(7::int) \<notin> set (map id_start [\<lparr>id_start = 1, id_end = 2, distance = Some 10\<rparr>,
                                  \<lparr>id_start = 2, id_end = 1, distance = None\<rparr>])
   \<and> find_ids_within_ten_percentage_threshold
       [\<lparr>id_start = 1, id_end = 2, distance = Some 10\<rparr>,
        \<lparr>id_start = 2, id_end = 1, distance = None\<rparr>] 7 = Inr []"
proof -
  have h: "(7::int) \<notin> set (map id_start [\<lparr>id_start = 1, id_end = 2, distance = Some 10\<rparr>,
                                  \<lparr>id_start = 2, id_end = 1, distance = None\<rparr>])"
    by simp
  show ?thesis
    using h missing_reference_gives_empty_result [OF h] by simp
qed

text \<open>
  C6 as stated fails: identifier 5 has no record, and the call returns the empty table.
\<close>

theorem missing_reference_counterexample:
  "find_ids_within_ten_percentage_threshold
     [\<lparr>id_start = 1, id_end = 2, distance = Some 10\<rparr>] 5 = Inr []"
  by (simp add: find_ids_within_ten_percentage_threshold_def mean_def)









text \<open>
  C10. For every frame whose distance column is numeric, calculate_toll_rate returns the
  frame with moto = d * 0.8, car = d * 1.2, rv = d * 1.5, bus = d * 2.2 and
  truck = d * 3.6 for the distance d of each row (NaN stays NaN); the keys of the rate
  table are exactly moto, car, rv, bus, truck, and these are the only columns added.
\<close>

theorem toll_rate_columns:
  assumes "getitem df ''distance'' = Inr c" and "numeric c = Inr ds"
  shows "\<exists>out. calculate_toll_rate df = Inr out
           \<and> getitem out ''moto'' = Inr (Float64 (map (map_option (\<lambda>d. d * 0.8)) ds))
           \<and> getitem out ''car'' = Inr (Float64 (map (map_option (\<lambda>d. d * 1.2)) ds))
           \<and> getitem out ''rv'' = Inr (Float64 (map (map_option (\<lambda>d. d * 1.5)) ds))
           \<and> getitem out ''bus'' = Inr (Float64 (map (map_option (\<lambda>d. d * 2.2)) ds))
           \<and> getitem out ''truck'' = Inr (Float64 (map (map_option (\<lambda>d. d * 3.6)) ds))
           \<and> map fst toll_rates = [''moto'', ''car'', ''rv'', ''bus'', ''truck'']
           \<and> fst ` set (cols out) = fst ` set (cols df) \<union> {''moto'', ''car'', ''rv'', ''bus'', ''truck''}"
proof -
  have "calculate_toll_rate df =
     Inr (setitem (setitem (setitem (setitem (setitem df
            ''moto'' (Float64 (map (map_option (\<lambda>d. d * 0.8)) ds)))
            ''car'' (Float64 (map (map_option (\<lambda>d. d * 1.2)) ds)))
            ''rv'' (Float64 (map (map_option (\<lambda>d. d * 1.5)) ds)))
            ''bus'' (Float64 (map (map_option (\<lambda>d. d * 2.2)) ds)))
            ''truck'' (Float64 (map (map_option (\<lambda>d. d * 3.6)) ds)))"
    using assms
    by (simp add: calculate_toll_rate_def toll_rates_def getitem_setitem mul_scalar_def
        cell_mul_scalar)
  then show ?thesis
    by (auto simp: getitem_setitem names_setitem toll_rates_def)
qed

theorem toll_rate_columns_witness:
  "\<exists>out. calculate_toll_rate (DataFrame [\<lparr>id_start = 1, id_end = 2, distance = Some 10\<rparr>,
                                        \<lparr>id_start = 2, id_end = 1, distance = None\<rparr>]) = Inr out
     \<and> getitem out ''moto'' = Inr (Float64 [Some 8, None])
     \<and> getitem out ''car'' = Inr (Float64 [Some 12, None])
     \<and> getitem out ''rv'' = Inr (Float64 [Some 15, None])
     \<and> getitem out ''bus'' = Inr (Float64 [Some 22, None])
     \<and> getitem out ''truck'' = Inr (Float64 [Some 36, None])"
  using toll_rate_columns [of "DataFrame [\<lparr>id_start = 1, id_end = 2, distance = Some 10\<rparr>,
                                        \<lparr>id_start = 2, id_end = 1, distance = None\<rparr>]"
      "Float64 [Some 10, None]" "[Some 10, None]"]
  by (auto simp: DataFrame_def getitem_def)

end
